theory Spec2Isabelle
  imports Main "HOL-Library.AList"
begin

section \<open>Wikipedia revision downloader: data model\<close>

text \<open>
  The program (\<^verbatim>\<open>download_wiki_revisions_VL2.py\<close>) fetches the export document of one
  wiki page, splits it into revision fragments, stores each fragment under a path derived
  from its id and timestamp, and counts what is stored.

  It is built on four libraries that are not part of the repository: the markup parser
  (\<^verbatim>\<open>BeautifulSoup(text, "lxml-xml")\<close> and \<^verbatim>\<open>str(tag)\<close>), \<^verbatim>\<open>datetime.strptime\<close>,
  \<^verbatim>\<open>requests.post\<close>, and the file system behind \<^verbatim>\<open>pathlib\<close> and \<^verbatim>\<open>os\<close>. The first
  three are taken as parameters, collected in the record \<open>lib\<close>: every theorem below
  holds for each behaviour of these libraries, unless it names an assumption on them.
  The file system is modelled as a tree.
\<close>

subsection \<open>Python exceptions\<close>

datatype exn =
    ValueError string
  | HTTPError int
  | ConnectionError
  | FileNotFoundError
  | NotADirectoryError
  | IsADirectoryError
  | FileExistsError

definition is_ValueError :: "exn \<Rightarrow> bool" where
  "is_ValueError e = (case e of ValueError _ \<Rightarrow> True | _ \<Rightarrow> False)"

subsection \<open>Parsed markup\<close>

text \<open>
  What the parser returns: a tree of tags and strings. Only what the program reads is
  kept: the name of a tag, its children, and the characters of a string.
\<close>

datatype xml = Tag string "xml list" | NavigableString string

text \<open>\<^verbatim>\<open>tag.descendants\<close>: every node below a tag, in document order.\<close>

fun descendants :: "xml \<Rightarrow> xml list" where
  "descendants (NavigableString s) = []"
| "descendants (Tag n cs) = concat (map (\<lambda>c. c # descendants c) cs)"

text \<open>The soup object is the list of the top-level nodes of the document.\<close>

definition soup_descendants :: "xml list \<Rightarrow> xml list" where
  "soup_descendants soup = concat (map (\<lambda>c. c # descendants c) soup)"

text \<open>\<^verbatim>\<open>tag.text\<close>: the strings below the tag, concatenated.\<close>

fun get_text :: "xml \<Rightarrow> string" where
  "get_text (NavigableString s) = s"
| "get_text (Tag n cs) = concat (map get_text cs)"

definition is_tag :: "string \<Rightarrow> xml \<Rightarrow> bool" where
  "is_tag name e = (case e of Tag n _ \<Rightarrow> n = name | NavigableString _ \<Rightarrow> False)"

text \<open>\<^verbatim>\<open>soup.find_all(name)\<close>: the tags of that name among the descendants, in order.\<close>

definition soup_find_all :: "string \<Rightarrow> xml list \<Rightarrow> xml list" where
  "soup_find_all name soup = filter (is_tag name) (soup_descendants soup)"

text \<open>\<^verbatim>\<open>soup.find(name)\<close> is \<^verbatim>\<open>find_all(name, limit=1)\<close>: its first result, or \<^verbatim>\<open>None\<close>.\<close>

definition soup_find :: "string \<Rightarrow> xml list \<Rightarrow> xml option" where
  "soup_find name soup = (case soup_find_all name soup of [] \<Rightarrow> None | e # _ \<Rightarrow> Some e)"

subsection \<open>Dates, requests and the library parameters\<close>

record datetime =
  year :: int
  month :: int
  day :: int
  hour :: int
  minute :: int
  second :: int

datatype form_value = StrV string | IntV int

record response =
  status_code :: int
  response_text :: string

record lib =
  BeautifulSoup :: "string \<Rightarrow> xml list"
  str_tag :: "xml \<Rightarrow> string"
  strptime :: "string \<Rightarrow> string \<Rightarrow> exn + datetime"
  requests_post :: "string \<Rightarrow> (string \<times> form_value) list \<Rightarrow> exn + response"

section \<open>The program\<close>

subsection \<open>Attribute extractor\<close>

definition extract_attribute :: "lib \<Rightarrow> string \<Rightarrow> string \<Rightarrow> exn + string" where
  "extract_attribute L txt attribute =
     (let soup = BeautifulSoup L txt;
          result = soup_find attribute soup
      in case result of
           None \<Rightarrow> Inl (ValueError (''Could not find attribute '' @ attribute @ '' in text''))
         | Some r \<Rightarrow> Inr (get_text r))"

definition extract_id :: "lib \<Rightarrow> string \<Rightarrow> exn + string" where
  "extract_id L revision = extract_attribute L revision ''id''"

definition parse_timestring :: "lib \<Rightarrow> string \<Rightarrow> exn + datetime" where
  "parse_timestring L timestring = strptime L timestring ''%Y-%m-%dT%H:%M:%SZ''"

definition find_timestamp :: "lib \<Rightarrow> string \<Rightarrow> exn + datetime" where
  "find_timestamp L revision =
     (case extract_attribute L revision ''timestamp'' of
        Inl e \<Rightarrow> Inl e
      | Inr s \<Rightarrow> parse_timestring L s)"

subsection \<open>Page validation\<close>

text \<open>The \<^verbatim>\<open>except ValueError\<close> clause replaces a \<open>ValueError\<close> and lets any other
  exception through.\<close>

definition validate_page :: "lib \<Rightarrow> string \<Rightarrow> string \<Rightarrow> exn + unit" where
  "validate_page L page_name page_xml =
     (case extract_attribute L page_xml ''page'' of
        Inl (ValueError _) \<Rightarrow> Inl (ValueError (''Page '' @ page_name @ '' does not exist''))
      | Inl e \<Rightarrow> Inl e
      | Inr _ \<Rightarrow> Inr ())"

subsection \<open>Path builder\<close>

text \<open>
  A path is the list of its parts, as \<^verbatim>\<open>path.parts\<close> gives them on POSIX: the names
  from left to right, with the root (\<^verbatim>\<open>/\<close> or \<^verbatim>\<open>//\<close>) as the first part of an
  absolute path.

  \<^verbatim>\<open>path / s\<close> for a string \<open>s\<close>: the string is cut at the separators, and the empty
  pieces and the pieces \<^verbatim>\<open>.\<close> are dropped. When \<open>s\<close> starts with a separator the result
  is the path of \<open>s\<close> alone: its root (\<^verbatim>\<open>//\<close> for exactly two leading separators,
  \<^verbatim>\<open>/\<close> otherwise) and its pieces. Otherwise the pieces are added to the parts of the
  left side.
\<close>

type_synonym path = "string list"

fun split_sep :: "string \<Rightarrow> string list" where
  "split_sep [] = [[]]"
| "split_sep (c # cs) =
     (if c = CHR ''/'' then [] # split_sep cs
      else (case split_sep cs of
              [] \<Rightarrow> [[c]]
            | piece # pieces \<Rightarrow> (c # piece) # pieces))"

definition path_pieces :: "string \<Rightarrow> string list" where
  "path_pieces s = filter (\<lambda>x. x \<noteq> [] \<and> x \<noteq> ''.'') (split_sep s)"

definition path_root :: "string \<Rightarrow> string" where
  "path_root s =
     (if takeWhile (\<lambda>c. c = CHR ''/'') s = [] then []
      else if length (takeWhile (\<lambda>c. c = CHR ''/'') s) = 2 then ''//''
      else ''/'')"

definition joinpath :: "path \<Rightarrow> string \<Rightarrow> path" where
  "joinpath p s =
     (if path_root s = [] then p @ path_pieces s
      else path_root s # path_pieces s)"

text \<open>A name that is one part of a path and stays within the directory it is looked up
  in: not empty, not \<^verbatim>\<open>.\<close> or \<^verbatim>\<open>..\<close>, and without a separator.\<close>

definition plain_name :: "string \<Rightarrow> bool" where
  "plain_name s = (s \<noteq> [] \<and> s \<noteq> ''.'' \<and> s \<noteq> ''..'' \<and> CHR ''/'' \<notin> set s)"

text \<open>\<^verbatim>\<open>str(n)\<close> for an integer: its decimal digits, with a minus sign when negative.\<close>

definition digit_char :: "nat \<Rightarrow> char" where
  "digit_char d = ''0123456789'' ! (d mod 10)"

function str_nat :: "nat \<Rightarrow> string" where
  "str_nat n = (if n < 10 then [digit_char n] else str_nat (n div 10) @ [digit_char (n mod 10)])"
  by pat_completeness auto
termination
  by (relation "measure (\<lambda>n. n)") auto

declare str_nat.simps [simp del]

definition str_int :: "int \<Rightarrow> string" where
  "str_int i = (if i < 0 then CHR ''-'' # str_nat (nat (- i)) else str_nat (nat i))"

text \<open>\<^verbatim>\<open>s.zfill(width)\<close>: zeros on the left up to the width, after a leading sign.\<close>

definition zfill :: "string \<Rightarrow> nat \<Rightarrow> string" where
  "zfill s width =
     (if width \<le> length s then s
      else (case s of
              [] \<Rightarrow> replicate width (CHR ''0'')
            | c # cs \<Rightarrow>
                if c = CHR ''+'' \<or> c = CHR ''-''
                then c # replicate (width - length s) (CHR ''0'') @ cs
                else replicate (width - length s) (CHR ''0'') @ s))"

definition construct_path :: "lib \<Rightarrow> string \<Rightarrow> path \<Rightarrow> string \<Rightarrow> exn + path" where
  "construct_path L page_name save_dir wiki_revision =
     (case extract_id L wiki_revision of
        Inl e \<Rightarrow> Inl e
      | Inr revision_id \<Rightarrow>
          (case find_timestamp L wiki_revision of
             Inl e \<Rightarrow> Inl e
           | Inr timestamp \<Rightarrow>
               (let year_s = str_int (year timestamp);
                    month_s = zfill (str_int (month timestamp)) 2
                in Inr (joinpath (joinpath (joinpath (joinpath save_dir page_name) year_s) month_s)
                          (revision_id @ ''.xml'')))))"

subsection \<open>Fetching and splitting the export document\<close>

text \<open>\<^verbatim>\<open>raise_for_status\<close> raises for a status from 400 to 599.\<close>

definition download_page_w_revisions :: "lib \<Rightarrow> string \<Rightarrow> int \<Rightarrow> exn + string" where
  "download_page_w_revisions L page_title limit =
     (let base_url = ''https://en.wikipedia.org/w/index.php'';
          params = [(''title'', StrV ''Special:Export''),
                    (''pages'', StrV page_title),
                    (''limit'', IntV (min limit 1000)),
                    (''dir'', StrV ''desc''),
                    (''action'', StrV ''submit'')]
      in case requests_post L base_url params of
           Inl e \<Rightarrow> Inl e
         | Inr response \<Rightarrow>
             if 400 \<le> status_code response \<and> status_code response < 600
             then Inl (HTTPError (status_code response))
             else Inr (response_text response))"

text \<open>The generator, as the list of what it yields.\<close>

definition parse_mediawiki_revisions :: "lib \<Rightarrow> string \<Rightarrow> string list" where
  "parse_mediawiki_revisions L xml_content =
     (let soup = BeautifulSoup L xml_content
      in map (str_tag L) (soup_find_all ''revision'' soup))"

subsection \<open>The file system\<close>

text \<open>
  A file holds its text; a directory holds its entries by name, in the order
  \<^verbatim>\<open>os.listdir\<close> gives them. The tree is what lies below the working directory, and a
  relative path of plain names is the way from its top to a place in it. A path with a
  root or with a part \<^verbatim>\<open>..\<close> leads elsewhere; the properties that depend on where a
  built path leads are stated for plain names.
\<close>

datatype node = File string | Dir "(string \<times> node) list"

fun lookup :: "node \<Rightarrow> path \<Rightarrow> node option" where
  "lookup n [] = Some n"
| "lookup (File _) (c # cs) = None"
| "lookup (Dir es) (c # cs) = (case map_of es c of None \<Rightarrow> None | Some n \<Rightarrow> lookup n cs)"

definition path_exists :: "node \<Rightarrow> path \<Rightarrow> bool" where
  "path_exists fs p = (lookup fs p \<noteq> None)"

definition isdir :: "node \<Rightarrow> path \<Rightarrow> bool" where
  "isdir fs p = (case lookup fs p of Some (Dir _) \<Rightarrow> True | _ \<Rightarrow> False)"

text \<open>
  Why a path cannot be followed: \<open>FileNotFoundError\<close> at a name that a directory does
  not have, \<open>NotADirectoryError\<close> at a name looked for in a file.
\<close>

fun resolve :: "node \<Rightarrow> path \<Rightarrow> exn + node" where
  "resolve n [] = Inr n"
| "resolve (File _) (c # cs) = Inl NotADirectoryError"
| "resolve (Dir es) (c # cs) =
     (case map_of es c of None \<Rightarrow> Inl FileNotFoundError | Some n \<Rightarrow> resolve n cs)"

definition listdir :: "node \<Rightarrow> path \<Rightarrow> exn + string list" where
  "listdir fs p =
     (case resolve fs p of
        Inl e \<Rightarrow> Inl e
      | Inr (File _) \<Rightarrow> Inl NotADirectoryError
      | Inr (Dir es) \<Rightarrow> Inr (map fst es))"

text \<open>\<^verbatim>\<open>path.mkdir(parents=True, exist_ok=True)\<close>.\<close>

fun mkdir_parents :: "node \<Rightarrow> path \<Rightarrow> exn + node" where
  "mkdir_parents (Dir es) [] = Inr (Dir es)"
| "mkdir_parents (File s) [] = Inl FileExistsError"
| "mkdir_parents (File s) (c # cs) = Inl NotADirectoryError"
| "mkdir_parents (Dir es) (c # cs) =
     (case mkdir_parents (case map_of es c of None \<Rightarrow> Dir [] | Some n \<Rightarrow> n) cs of
        Inl e \<Rightarrow> Inl e
      | Inr n' \<Rightarrow> Inr (Dir (AList.update c n' es)))"

text \<open>\<^verbatim>\<open>path.write_text(s)\<close>: creates the file or replaces its text.\<close>

fun write_text :: "node \<Rightarrow> path \<Rightarrow> string \<Rightarrow> exn + node" where
  "write_text (File _) [] s = Inr (File s)"
| "write_text (Dir es) [] s = Inl IsADirectoryError"
| "write_text (File _) (c # cs) s = Inl NotADirectoryError"
| "write_text (Dir es) (c # cs) s =
     (case map_of es c of
        None \<Rightarrow> if cs = [] then Inr (Dir (AList.update c (File s) es)) else Inl FileNotFoundError
      | Some n \<Rightarrow>
          (case write_text n cs s of
             Inl e \<Rightarrow> Inl e
           | Inr n' \<Rightarrow> Inr (Dir (AList.update c n' es))))"

text \<open>No directory has two entries of the same name.\<close>

fun wf_node :: "node \<Rightarrow> bool" where
  "wf_node (File _) = True"
| "wf_node (Dir es) = (distinct (map fst es) \<and> list_all (\<lambda>e. wf_node (snd e)) es)"

subsection \<open>Revision counter\<close>

text \<open>
  The flag comes from the command line as a string, or is \<^verbatim>\<open>None\<close> when the option is
  not given; a caller of \<^verbatim>\<open>main\<close> may also pass a boolean. The counter compares it with
  the string \<^verbatim>\<open>"True"\<close>, which no boolean equals.
\<close>

datatype flag = PyNone | PyBool bool | PyStr string

text \<open>The size of what a path names, for the termination of the counter.\<close>

definition size_at :: "node \<Rightarrow> path \<Rightarrow> nat" where
  "size_at fs p = (case lookup fs p of None \<Rightarrow> 0 | Some n \<Rightarrow> size n)"

lemma lookup_append:
  "lookup fs (p @ q) = (case lookup fs p of None \<Rightarrow> None | Some n \<Rightarrow> lookup n q)"
proof (induction fs p rule: lookup.induct)
  case (1 n)
  then show ?case by simp
next
  case (2 s c cs)
  then show ?case by simp
next
  case (3 es c cs)
  then show ?case by (cases "map_of es c") simp_all
qed

lemma size_map_of:
  "map_of es c = Some n \<Longrightarrow> size n < size (Dir es)"
proof (induction es)
  case Nil
  then show ?case by simp
next
  case (Cons e es)
  then show ?case by (cases e) (auto split: if_splits)
qed

lemma isdir_size_at:
  assumes "isdir fs (p @ [item])"
  shows "size_at fs (p @ [item]) < size_at fs p"
proof (cases "lookup fs p")
  case None
  with assms show ?thesis by (simp add: isdir_def lookup_append)
next
  case (Some n)
  show ?thesis
  proof (cases n)
    case (File s)
    with Some assms show ?thesis by (simp add: isdir_def lookup_append)
  next
    case (Dir es)
    with Some assms obtain m where "map_of es item = Some m"
      by (cases "map_of es item") (simp_all add: isdir_def lookup_append)
    with Some Dir show ?thesis
      using size_map_of [of es item m] by (simp add: size_at_def lookup_append)
  qed
qed

function count_revisions :: "node \<Rightarrow> path \<Rightarrow> flag \<Rightarrow> exn + nat"
  and count_loop :: "node \<Rightarrow> path \<Rightarrow> flag \<Rightarrow> string list \<Rightarrow> nat \<Rightarrow> exn + nat"
where
  "count_revisions fs path_to_subfolder folders =
     (case listdir fs path_to_subfolder of
        Inl e \<Rightarrow> Inl e
      | Inr items \<Rightarrow> count_loop fs path_to_subfolder folders items 0)"
| "count_loop fs path_to_subfolder folders [] count = Inr count"
| "count_loop fs path_to_subfolder folders (item # items) count =
     (if isdir fs (path_to_subfolder @ [item])
      then (case count_revisions fs (path_to_subfolder @ [item]) folders of
              Inl e \<Rightarrow> Inl e
            | Inr sub \<Rightarrow>
                count_loop fs path_to_subfolder folders items
                  ((if folders = PyStr ''True'' then count + 1 else count) + sub))
      else count_loop fs path_to_subfolder folders items (count + 1))"
  by pat_completeness auto
termination
proof (relation "(\<lambda>x. case x of
                      Inl (fs, p, f) \<Rightarrow> size_at fs p
                    | Inr (fs, p, f, items, c) \<Rightarrow> size_at fs p)
                 <*mlex*> (\<lambda>x. case x of
                      Inl (fs, p, f) \<Rightarrow> Suc 0
                    | Inr (fs, p, f, items, c) \<Rightarrow> 0)
                 <*mlex*> measure (\<lambda>x. case x of
                      Inl (fs, p, f) \<Rightarrow> 0
                    | Inr (fs, p, f, items, c) \<Rightarrow> length items)")
  show "wf ((\<lambda>x. case x of
                      Inl (fs, p, f) \<Rightarrow> size_at fs p
                    | Inr (fs, p, f, items, c) \<Rightarrow> size_at fs p)
                 <*mlex*> (\<lambda>x. case x of
                      Inl (fs, p, f) \<Rightarrow> Suc 0
                    | Inr (fs, p, f, items, c) \<Rightarrow> 0)
                 <*mlex*> measure (\<lambda>x. case x of
                      Inl (fs, p, f) \<Rightarrow> 0
                    | Inr (fs, p, f, items, c) \<Rightarrow> length items))"
    by (intro wf_mlex wf_measure)
qed (auto simp: mlex_iff dest: isdir_size_at)

declare count_revisions.simps [simp del]

subsection \<open>Orchestrator\<close>

text \<open>One turn of the loop of \<^verbatim>\<open>main\<close>: the directory is made only when the path
  does not exist; the text is written in every case.\<close>

definition save_revision :: "lib \<Rightarrow> string \<Rightarrow> path \<Rightarrow> string \<Rightarrow> node \<Rightarrow> exn + node" where
  "save_revision L page data_dir wiki_revision fs =
     (case construct_path L page data_dir wiki_revision of
        Inl e \<Rightarrow> Inl e
      | Inr revision_path \<Rightarrow>
          (case (if \<not> path_exists fs revision_path
                 then mkdir_parents fs (butlast revision_path)
                 else Inr fs) of
             Inl e \<Rightarrow> Inl e
           | Inr fs1 \<Rightarrow> write_text fs1 revision_path wiki_revision))"

fun save_revisions :: "lib \<Rightarrow> string \<Rightarrow> path \<Rightarrow> string list \<Rightarrow> node \<Rightarrow> exn + node" where
  "save_revisions L page data_dir [] fs = Inr fs"
| "save_revisions L page data_dir (wiki_revision # rest) fs =
     (case save_revision L page data_dir wiki_revision fs of
        Inl e \<Rightarrow> Inl e
      | Inr fs1 \<Rightarrow> save_revisions L page data_dir rest fs1)"

text \<open>\<^verbatim>\<open>main\<close> returns the file system it leaves and the count it prints.\<close>

definition main :: "lib \<Rightarrow> string \<Rightarrow> int \<Rightarrow> path \<Rightarrow> flag \<Rightarrow> node \<Rightarrow> exn + (node \<times> nat)" where
  "main L page limit data_dir folders fs =
     (case download_page_w_revisions L page limit of
        Inl e \<Rightarrow> Inl e
      | Inr raw_revisions \<Rightarrow>
          (case validate_page L page raw_revisions of
             Inl e \<Rightarrow> Inl e
           | Inr _ \<Rightarrow>
               (case save_revisions L page data_dir
                       (parse_mediawiki_revisions L raw_revisions) fs of
                  Inl e \<Rightarrow> Inl e
                | Inr fs1 \<Rightarrow>
                    (case count_revisions fs1 (joinpath data_dir page) folders of
                       Inl e \<Rightarrow> Inl e
                     | Inr n \<Rightarrow> Inr (fs1, n)))))"

section \<open>A reference instance of the libraries\<close>

text \<open>
  To run the program on concrete inputs the library parameters need values. The
  instance below covers the inputs the program meets in practice: markup made of plain
  tags and character data, and timestamps read with the one format string the program
  uses. It is used only to instantiate the theorems; none of them is proved from it.
\<close>

subsection \<open>Markup: a serialiser and a parser for plain tags\<close>

fun ref_str_tag :: "xml \<Rightarrow> string" where
  "ref_str_tag (NavigableString s) = s"
| "ref_str_tag (Tag n cs) =
     (if cs = [] then ''<'' @ n @ ''/>''
      else ''<'' @ n @ ''>'' @ concat (map ref_str_tag cs) @ ''</'' @ n @ ''>'')"

datatype token = TOpen string | TClose string | TEmpty string | TChars string | TBad

definition emit_chars :: "string \<Rightarrow> token list \<Rightarrow> token list" where
  "emit_chars acc rest = (if acc = [] then rest else TChars (rev acc) # rest)"

definition mk_tag :: "string \<Rightarrow> token" where
  "mk_tag s =
     (case s of
        [] \<Rightarrow> TBad
      | c # cs \<Rightarrow>
          if c = CHR ''/'' then TClose cs
          else if last s = CHR ''/'' then TEmpty (butlast s)
          else TOpen s)"

fun lex_text :: "string \<Rightarrow> string \<Rightarrow> token list"
  and lex_tag :: "string \<Rightarrow> string \<Rightarrow> token list"
where
  "lex_text [] acc = emit_chars acc []"
| "lex_text (c # cs) acc =
     (if c = CHR ''<'' then emit_chars acc (lex_tag cs []) else lex_text cs (c # acc))"
| "lex_tag [] acc = [TBad]"
| "lex_tag (c # cs) acc =
     (if c = CHR ''>'' then mk_tag (rev acc) # lex_text cs [] else lex_tag cs (c # acc))"

fun build :: "token list \<Rightarrow> (string \<times> xml list) list \<Rightarrow> xml list \<Rightarrow> xml list option" where
  "build [] [] cur = Some (rev cur)"
| "build [] (f # st) cur = None"
| "build (TChars s # ts) st cur = build ts st (NavigableString s # cur)"
| "build (TEmpty n # ts) st cur = build ts st (Tag n [] # cur)"
| "build (TOpen n # ts) st cur = build ts ((n, cur) # st) []"
| "build (TClose n # ts) [] cur = None"
| "build (TClose n # ts) ((m, outer) # st) cur =
     (if n = m then build ts st (Tag n (rev cur) # outer) else None)"
| "build (TBad # ts) st cur = None"

definition ref_BeautifulSoup :: "string \<Rightarrow> xml list" where
  "ref_BeautifulSoup s = (case build (lex_text s []) [] [] of None \<Rightarrow> [] | Some ns \<Rightarrow> ns)"














subsection \<open>Timestamps: the format \<^verbatim>\<open>%Y-%m-%dT%H:%M:%SZ\<close>\<close>

text \<open>
  The library turns the format into a pattern, matched without regard to case: four
  digits for the year; one or two digits within range for the other fields (the day may
  also be a space and a digit); the separators as written. The date must then exist,
  the year must not be 0, and the seconds must be below 60.
\<close>

definition is_digit :: "char \<Rightarrow> bool" where
  "is_digit c = ((48::nat) \<le> of_char c \<and> of_char c \<le> (57::nat))"

definition digits_value :: "string \<Rightarrow> nat" where
  "digits_value s = foldl (\<lambda>v c. 10 * v + (of_char c - (48::nat))) 0 s"

definition num_field :: "string \<Rightarrow> nat \<Rightarrow> nat \<Rightarrow> nat option" where
  "num_field s lo hi =
     (if (length s = 1 \<or> length s = 2) \<and> list_all is_digit s
         \<and> lo \<le> digits_value s \<and> digits_value s \<le> hi
         \<and> (length s = 2 \<and> lo = 1 \<longrightarrow> s \<noteq> ''00'')
      then Some (digits_value s) else None)"

definition day_field :: "string \<Rightarrow> nat option" where
  "day_field s =
     (case s of
        [c, d] \<Rightarrow> if c = CHR '' '' then num_field [d] 1 9 else num_field s 1 31
      | _ \<Rightarrow> num_field s 1 31)"

definition year_field :: "string \<Rightarrow> nat option" where
  "year_field s = (if length s = 4 \<and> list_all is_digit s then Some (digits_value s) else None)"

definition split_at :: "(char \<Rightarrow> bool) \<Rightarrow> string \<Rightarrow> (string \<times> string) option" where
  "split_at P s =
     (case dropWhile (\<lambda>c. \<not> P c) s of
        [] \<Rightarrow> None
      | _ # rest \<Rightarrow> Some (takeWhile (\<lambda>c. \<not> P c) s, rest))"

definition is_leap :: "nat \<Rightarrow> bool" where
  "is_leap y = (y mod 4 = 0 \<and> (y mod 100 \<noteq> 0 \<or> y mod 400 = 0))"

definition days_in_month :: "nat \<Rightarrow> nat \<Rightarrow> nat" where
  "days_in_month y m =
     (if m = 2 then (if is_leap y then 29 else 28)
      else if m = 4 \<or> m = 6 \<or> m = 9 \<or> m = 11 then 30 else 31)"

definition match_fields :: "string \<Rightarrow> (nat \<times> nat \<times> nat \<times> nat \<times> nat \<times> nat) option" where
  "match_fields s =
     (case split_at (\<lambda>c. c = CHR ''-'') s of None \<Rightarrow> None | Some (fY, r1) \<Rightarrow>
      case split_at (\<lambda>c. c = CHR ''-'') r1 of None \<Rightarrow> None | Some (fm, r2) \<Rightarrow>
      case split_at (\<lambda>c. c = CHR ''T'' \<or> c = CHR ''t'') r2 of None \<Rightarrow> None | Some (fd, r3) \<Rightarrow>
      case split_at (\<lambda>c. c = CHR '':'') r3 of None \<Rightarrow> None | Some (fH, r4) \<Rightarrow>
      case split_at (\<lambda>c. c = CHR '':'') r4 of None \<Rightarrow> None | Some (fM, r5) \<Rightarrow>
      case split_at (\<lambda>c. c = CHR ''Z'' \<or> c = CHR ''z'') r5 of None \<Rightarrow> None | Some (fS, r6) \<Rightarrow>
      if r6 \<noteq> [] then None else
      case (year_field fY, num_field fm 1 12, day_field fd,
            num_field fH 0 23, num_field fM 0 59, num_field fS 0 61) of
        (Some Y, Some m, Some d, Some H, Some M, Some S) \<Rightarrow> Some (Y, m, d, H, M, S)
      | _ \<Rightarrow> None)"

definition ref_strptime :: "string \<Rightarrow> string \<Rightarrow> exn + datetime" where
  "ref_strptime s fmt =
     (if fmt \<noteq> ''%Y-%m-%dT%H:%M:%SZ'' then Inl (ValueError ''format not covered'')
      else case match_fields s of
        None \<Rightarrow> Inl (ValueError (''time data does not match format: '' @ s))
      | Some (Y, m, d, H, M, S) \<Rightarrow>
          if Y = 0 \<or> days_in_month Y m < d \<or> 59 < S
          then Inl (ValueError ''value out of range'')
          else Inr \<lparr>year = int Y, month = int m, day = int d,
                    hour = int H, minute = int M, second = int S\<rparr>)"

subsection \<open>The remote endpoint\<close>

text \<open>An endpoint that answers every request with the given status and text.\<close>

definition ref_post :: "int \<Rightarrow> string \<Rightarrow> string \<Rightarrow> (string \<times> form_value) list \<Rightarrow> exn + response" where
  "ref_post status body url form = Inr \<lparr>status_code = status, response_text = body\<rparr>"

definition ref_lib :: "string \<Rightarrow> lib" where
  "ref_lib body =
     \<lparr>BeautifulSoup = ref_BeautifulSoup, str_tag = ref_str_tag,
      strptime = ref_strptime, requests_post = ref_post 200 body\<rparr>"

subsection \<open>Sample inputs\<close>

definition demo_fragment :: string where
  "demo_fragment = ''<revision><id>7</id><timestamp>2020-03-05T12:34:56Z</timestamp><contributor><id>8</id></contributor></revision>''"

definition demo_document :: string where
  "demo_document = ''<mediawiki><page><title>Page</title><revision><id>7</id><timestamp>2020-03-05T12:34:56Z</timestamp></revision><revision><id>6</id><timestamp>2020-02-29T01:02:03Z</timestamp></revision></page></mediawiki>''"

definition demo_fragment_edited :: string where
  "demo_fragment_edited = ''<revision><id>7</id><timestamp>2020-03-05T12:34:56Z</timestamp><comment>redacted</comment></revision>''"

definition demo_empty_export :: string where
  "demo_empty_export = ''<mediawiki><page><title>Page</title></page></mediawiki>''"

definition demo_path :: path where
  "demo_path = [''data'', ''Page'', ''2020'', ''03'', ''7.xml'']"

definition demo_store :: "string \<Rightarrow> node" where
  "demo_store content =
     Dir [(''data'', Dir [(''Page'', Dir [(''2020'', Dir [(''03'', Dir [(''7.xml'', File content)])])])])]"

definition demo_tree :: node where
  "demo_tree =
     Dir [(''data'',
           Dir [(''Page'',
                 Dir [(''1.xml'', File ''a''), (''2.xml'', File ''b''), (''3.xml'', File ''c''),
                      (''2020'', Dir [(''4.xml'', File ''d'')]),
                      (''2021'', Dir [(''5.xml'', File ''e'')])]),
                (''Empty'', Dir [])])]"

text \<open>What an endpoint can report of the \<open>limit\<close> field of a request it receives.\<close>

definition echo_limit :: "string \<Rightarrow> (string \<times> form_value) list \<Rightarrow> string" where
  "echo_limit url form = (case map_of form ''limit'' of Some (IntV n) \<Rightarrow> str_int n | _ \<Rightarrow> ''none'')"

section \<open>Notions the properties are stated with\<close>


text \<open>Every node below a directory; the files and the directories among them.\<close>

fun walk :: "node \<Rightarrow> node list" where
  "walk (File _) = []"
| "walk (Dir es) = concat (map (\<lambda>(name, child). child # walk child) es)"

definition is_file :: "node \<Rightarrow> bool" where
  "is_file n = (case n of File _ \<Rightarrow> True | Dir _ \<Rightarrow> False)"

definition num_files :: "node \<Rightarrow> nat" where
  "num_files n = length (filter is_file (walk n))"

definition num_dirs :: "node \<Rightarrow> nat" where
  "num_dirs n = length (filter (\<lambda>m. \<not> is_file m) (walk n))"

text \<open>What the counter is to return for a directory, and what one entry adds to it.\<close>

definition total :: "flag \<Rightarrow> node \<Rightarrow> nat" where
  "total f n = num_files n + (if f = PyStr ''True'' then num_dirs n else 0)"

definition contrib :: "flag \<Rightarrow> node \<Rightarrow> nat" where
  "contrib f c = (if is_file c then 1 else if f = PyStr ''True'' then 1 else 0) + total f c"

section \<open>Auxiliary facts\<close>

lemma soup_find_None_iff:
  "soup_find a soup = None \<longleftrightarrow> (\<forall>e \<in> set (soup_descendants soup). \<not> is_tag a e)"
proof -
  have "soup_find a soup = None \<longleftrightarrow> filter (is_tag a) (soup_descendants soup) = []"
    by (simp add: soup_find_def soup_find_all_def split: list.splits)
  then show ?thesis by (simp add: filter_empty_conv)
qed

lemma soup_find_Some_iff:
  "soup_find a soup = Some e \<longleftrightarrow>
     (\<exists>pre post. soup_descendants soup = pre @ e # post \<and> is_tag a e \<and> (\<forall>x \<in> set pre. \<not> is_tag a x))"
proof -
  have "soup_find a soup = Some e \<longleftrightarrow> (\<exists>r. filter (is_tag a) (soup_descendants soup) = e # r)"
    by (simp add: soup_find_def soup_find_all_def split: list.splits)
  also have "\<dots> \<longleftrightarrow> (\<exists>pre post. soup_descendants soup = pre @ e # post \<and> is_tag a e
                       \<and> (\<forall>x \<in> set pre. \<not> is_tag a x))"
    by (auto simp: filter_eq_Cons_iff)
  finally show ?thesis .
qed

lemma str_nat_one_digit: "n < 10 \<Longrightarrow> str_nat n = [digit_char n]"
  by (simp add: str_nat.simps)

lemma str_nat_two_digits:
  assumes "10 \<le> n" and "n < 100"
  shows "str_nat n = [digit_char (n div 10), digit_char (n mod 10)]"
proof -
  from assms have "n div 10 < 10" by simp
  then have "str_nat (n div 10) = [digit_char (n div 10)]" by (rule str_nat_one_digit)
  with assms show ?thesis by (subst str_nat.simps) simp
qed

lemma zfill_month:
  assumes "1 \<le> m" and "m \<le> (12::int)"
  shows "zfill (str_int m) 2 = [digit_char (nat m div 10), digit_char (nat m mod 10)]"
proof (cases "m < 10")
  case True
  with assms have "m = 1 \<or> m = 2 \<or> m = 3 \<or> m = 4 \<or> m = 5 \<or> m = 6 \<or> m = 7 \<or> m = 8 \<or> m = 9"
    by arith
  then show ?thesis
    by (elim disjE) (simp_all add: zfill_def str_int_def str_nat_one_digit digit_char_def)
next
  case False
  with assms have "str_int m = [digit_char (nat m div 10), digit_char (nat m mod 10)]"
    by (simp add: str_int_def str_nat_two_digits)
  then show ?thesis by (simp add: zfill_def)
qed




lemma ref_strptime_ValueError:
  "ref_strptime s fmt = Inl e \<Longrightarrow> is_ValueError e"
  by (auto simp: ref_strptime_def is_ValueError_def split: if_splits option.splits prod.splits)

lemma demo_fragment_descendants:
  "soup_descendants (BeautifulSoup (ref_lib []) demo_fragment) =
     [Tag ''revision'' [Tag ''id'' [NavigableString ''7''],
                        Tag ''timestamp'' [NavigableString ''2020-03-05T12:34:56Z''],
                        Tag ''contributor'' [Tag ''id'' [NavigableString ''8'']]]]
     @ Tag ''id'' [NavigableString ''7'']
     # [NavigableString ''7'',
        Tag ''timestamp'' [NavigableString ''2020-03-05T12:34:56Z''],
        NavigableString ''2020-03-05T12:34:56Z'',
        Tag ''contributor'' [Tag ''id'' [NavigableString ''8'']],
        Tag ''id'' [NavigableString ''8''],
        NavigableString ''8'']"
  by code_simp

lemma demo_document_soup:
  "BeautifulSoup (ref_lib body) demo_document =
     [Tag ''mediawiki''
       [Tag ''page''
         [Tag ''title'' [NavigableString ''Page''],
          Tag ''revision'' [Tag ''id'' [NavigableString ''7''],
                            Tag ''timestamp'' [NavigableString ''2020-03-05T12:34:56Z'']],
          Tag ''revision'' [Tag ''id'' [NavigableString ''6''],
                            Tag ''timestamp'' [NavigableString ''2020-02-29T01:02:03Z'']]]]]"
  unfolding ref_lib_def by code_simp

lemma demo_fragment_id: "extract_id (ref_lib []) demo_fragment = Inr ''7''"
  by code_simp

lemma demo_fragment_timestamp:
  "find_timestamp (ref_lib []) demo_fragment
     = Inr \<lparr>year = 2020, month = 3, day = 5, hour = 12, minute = 34, second = 56\<rparr>"
  by code_simp

lemma ref_lib_strptime_contract:
  "\<forall>s e. strptime (ref_lib body) s ''%Y-%m-%dT%H:%M:%SZ'' = Inl e \<longrightarrow> is_ValueError e"
  by (simp add: ref_lib_def ref_strptime_ValueError)

lemma resolve_lookup:
  "lookup fs p = (case resolve fs p of Inl e \<Rightarrow> None | Inr n \<Rightarrow> Some n)"
  by (induction fs p rule: lookup.induct) (simp_all split: option.splits)

lemma listdir_Dir: "lookup fs p = Some (Dir es) \<Longrightarrow> listdir fs p = Inr (map fst es)"
  by (simp add: listdir_def resolve_lookup split: sum.splits)

lemma num_files_Dir:
  "num_files (Dir es) = sum_list (map (\<lambda>e. (if is_file (snd e) then 1 else 0) + num_files (snd e)) es)"
  by (induction es) (auto simp: num_files_def)

lemma num_dirs_Dir:
  "num_dirs (Dir es) = sum_list (map (\<lambda>e. (if is_file (snd e) then 0 else 1) + num_dirs (snd e)) es)"
  by (induction es) (auto simp: num_dirs_def)

lemma total_Dir: "total f (Dir es) = sum_list (map (\<lambda>e. contrib f (snd e)) es)"
proof -
  have h: "sum_list (map (\<lambda>e. contrib f (snd e)) xs)
          = sum_list (map (\<lambda>e. (if is_file (snd e) then 1 else 0) + num_files (snd e)) xs)
            + (if f = PyStr ''True''
               then sum_list (map (\<lambda>e. (if is_file (snd e) then 0 else 1) + num_dirs (snd e)) xs)
               else 0)" for xs
    by (induction xs) (simp_all add: contrib_def total_def)
  show ?thesis
    by (simp add: total_def num_files_Dir num_dirs_Dir h)
qed

lemma lookup_child:
  assumes "lookup fs p = Some (Dir es)" and "distinct (map fst es)" and "(name, child) \<in> set es"
  shows "lookup fs (p @ [name]) = Some child"
proof -
  from assms(2,3) have "map_of es name = Some child" by (rule map_of_is_SomeI)
  with assms(1) show ?thesis by (simp add: lookup_append)
qed

lemma count_loop_sum:
  assumes dir: "lookup fs p = Some (Dir es)" and dist: "distinct (map fst es)"
    and sub: "\<And>name child. (name, child) \<in> set es \<Longrightarrow> \<not> is_file child \<Longrightarrow>
                 count_revisions fs (p @ [name]) f = Inr (total f child)"
  shows "set xs \<subseteq> set es \<Longrightarrow>
           count_loop fs p f (map fst xs) c = Inr (c + sum_list (map (\<lambda>e. contrib f (snd e)) xs))"
proof (induction xs arbitrary: c)
  case Nil
  show ?case by (simp add: count_revisions.simps)
next
  case (Cons x xs)
  obtain name child where x: "x = (name, child)" by (cases x)
  with Cons.prems have mem: "(name, child) \<in> set es" by simp
  from Cons.prems have rest: "set xs \<subseteq> set es" by simp
  have look: "lookup fs (p @ [name]) = Some child"
    using dir dist mem by (rule lookup_child)
  show ?case
  proof (cases child)
    case (File s)
    with look have "\<not> isdir fs (p @ [name])" by (simp add: isdir_def)
    with File x show ?thesis
      by (simp add: count_revisions.simps Cons.IH [OF rest] contrib_def total_def
          is_file_def num_files_def num_dirs_def)
  next
    case (Dir ds)
    with look have d: "isdir fs (p @ [name])" by (simp add: isdir_def)
    from Dir have "\<not> is_file child" by (simp add: is_file_def)
    with mem have "count_revisions fs (p @ [name]) f = Inr (total f child)" by (rule sub)
    with d x Dir show ?thesis
      by (simp add: count_revisions.simps Cons.IH [OF rest] contrib_def is_file_def)
  qed
qed

lemma count_revisions_total:
  "lookup fs p = Some n \<Longrightarrow> wf_node n \<Longrightarrow> \<not> is_file n \<Longrightarrow>
     count_revisions fs p f = Inr (total f n)"
proof (induction n arbitrary: fs p)
  case (File s)
  then show ?case by (simp add: is_file_def)
next
  case (Dir es)
  from Dir.prems have dist: "distinct (map fst es)" by simp
  have sub: "count_revisions fs (p @ [name]) f = Inr (total f child)"
    if mem: "(name, child) \<in> set es" and nf: "\<not> is_file child" for name child
  proof -
    from mem Dir.prems(2) have wf: "wf_node child" by (auto simp: list_all_iff)
    have look: "lookup fs (p @ [name]) = Some child"
      using Dir.prems(1) dist mem by (rule lookup_child)
    from mem have "child \<in> Basic_BNFs.snds (name, child)" by simp
    from Dir.IH [OF mem this look wf nf] show ?thesis .
  qed
  have "count_loop fs p f (map fst es) 0 = Inr (0 + sum_list (map (\<lambda>e. contrib f (snd e)) es))"
    by (rule count_loop_sum [OF Dir.prems(1) dist sub]) simp_all
  with Dir.prems(1) show ?case
    by (simp add: count_revisions.simps listdir_Dir total_Dir)
qed


lemma demo_tree_page:
  "lookup demo_tree [''data'', ''Page'']
     = Some (Dir [(''1.xml'', File ''a''), (''2.xml'', File ''b''), (''3.xml'', File ''c''),
                  (''2020'', Dir [(''4.xml'', File ''d'')]),
                  (''2021'', Dir [(''5.xml'', File ''e'')])])"
  by (simp add: demo_tree_def)

lemma demo_tree_empty: "lookup demo_tree [''data'', ''Empty''] = Some (Dir [])"
  by (simp add: demo_tree_def)

lemma write_text_same: "lookup fs p = Some (File s) \<Longrightarrow> write_text fs p s = Inr fs"
proof (induction fs p rule: lookup.induct)
  case (1 n)
  then show ?case by simp
next
  case (2 u c cs)
  then show ?case by simp
next
  case (3 es c cs)
  from "3.prems" obtain n where n: "map_of es c = Some n" and l: "lookup n cs = Some (File s)"
    by (cases "map_of es c") simp_all
  from "3.IH" [OF n l] have "write_text n cs s = Inr n" .
  moreover from n have "AList.update c n es = es" by (rule update_triv)
  ultimately show ?case using n by simp
qed

lemma write_text_lookup: "write_text fs p s = Inr fs' \<Longrightarrow> lookup fs' p = Some (File s)"
proof (induction fs p s arbitrary: fs' rule: write_text.induct)
  case (1 u s)
  then show ?case by auto
next
  case (2 es s)
  then show ?case by simp
next
  case (3 u c cs s)
  then show ?case by simp
next
  case (4 es c cs s)
  show ?case
  proof (cases "map_of es c")
    case None
    with "4.prems" show ?thesis
      by (auto simp: update_conv' split: if_splits)
  next
    case (Some n)
    with "4.prems" obtain n' where w: "write_text n cs s = Inr n'"
      and fs': "fs' = Dir (AList.update c n' es)"
      by (cases "write_text n cs s") auto
    from "4.IH" [OF Some w] fs' show ?thesis
      by (simp add: update_conv')
  qed
qed

lemma write_text_overwrite: "lookup fs p = Some (File old) \<Longrightarrow> \<exists>fs'. write_text fs p s = Inr fs'"
proof (induction fs p rule: lookup.induct)
  case (1 n)
  then show ?case by simp
next
  case (2 u c cs)
  then show ?case by simp
next
  case (3 es c cs)
  from "3.prems" obtain n where n: "map_of es c = Some n" and l: "lookup n cs = Some (File old)"
    by (cases "map_of es c") simp_all
  from "3.IH" [OF n l] obtain n' where "write_text n cs s = Inr n'" ..
  with n show ?case by simp
qed

lemma demo_fragment_path:
  "construct_path (ref_lib []) ''Page'' [''data''] demo_fragment = Inr demo_path"
  by code_simp

lemma demo_store_lookup: "lookup (demo_store content) demo_path = Some (File content)"
  by (simp add: demo_store_def demo_path_def)

lemma demo_fragment_first_save:
  "save_revision (ref_lib []) ''Page'' [''data''] demo_fragment (Dir [])
     = Inr (demo_store demo_fragment)"
  by code_simp

lemma split_sep_no_sep: "CHR ''/'' \<notin> set s \<Longrightarrow> split_sep s = [s]"
  by (induction s) auto

lemma joinpath_plain_name: "plain_name s \<Longrightarrow> joinpath p s = p @ [s]"
proof -
  assume plain: "plain_name s"
  then have "split_sep s = [s]" by (simp add: plain_name_def split_sep_no_sep)
  moreover from plain have "takeWhile (\<lambda>c. c = CHR ''/'') s = []"
    by (cases s) (auto simp: plain_name_def)
  ultimately show ?thesis
    using plain by (simp add: joinpath_def path_root_def path_pieces_def plain_name_def)
qed

lemma digit_char_digit: "digit_char d \<in> set ''0123456789''"
proof -
  have "d mod 10 < length ''0123456789''" by simp
  then have "''0123456789'' ! (d mod 10) \<in> set ''0123456789''" by (rule nth_mem)
  then show ?thesis by (simp only: digit_char_def)
qed

lemma str_nat_digits: "str_nat n \<noteq> [] \<and> set (str_nat n) \<subseteq> set ''0123456789''"
proof (induction n rule: str_nat.induct)
  case (1 n)
  show ?case
  proof (cases "n < 10")
    case True
    then show ?thesis
      using digit_char_digit [of n] by (subst (1 2) str_nat.simps) simp
  next
    case False
    with 1 show ?thesis
      using digit_char_digit [of "n mod 10"] by (subst (1 2) str_nat.simps) simp
  qed
qed

lemma plain_name_digits:
  assumes "s \<noteq> []" and "set s \<subseteq> set ''0123456789''"
  shows "plain_name s" and "plain_name (CHR ''-'' # s)"
proof -
  from assms have "CHR ''/'' \<notin> set s" "CHR ''.'' \<notin> set s" by auto
  with assms(1) show "plain_name s" "plain_name (CHR ''-'' # s)"
    by (auto simp: plain_name_def)
qed

lemma plain_name_str_int: "plain_name (str_int i)"
  using str_nat_digits plain_name_digits by (simp add: str_int_def)

lemma plain_name_two_digits: "plain_name [digit_char a, digit_char b]"
  using digit_char_digit [of a] digit_char_digit [of b]
  by (intro plain_name_digits(1)) simp_all

lemma resolve_append:
  "resolve fs (p @ q) = (case resolve fs p of Inl e \<Rightarrow> Inl e | Inr n \<Rightarrow> resolve n q)"
  by (induction fs p rule: resolve.induct) (simp_all split: option.splits)

lemma resolve_missing:
  "lookup fs p = None \<Longrightarrow>
     resolve fs p = Inl (if \<exists>q r s. p = q @ r \<and> lookup fs q = Some (File s)
                         then NotADirectoryError else FileNotFoundError)"
proof (induction fs p rule: resolve.induct)
  case (1 n)
  then show ?case by simp
next
  case (2 u c cs)
  have "c # cs = [] @ (c # cs) \<and> lookup (File u) [] = Some (File u)" by simp
  then have "\<exists>q r s. c # cs = q @ r \<and> lookup (File u) q = Some (File s)" by blast
  then show ?case by simp
next
  case (3 es c cs)
  show ?case
  proof (cases "map_of es c")
    case None
    have "\<not> (\<exists>q r s. c # cs = q @ r \<and> lookup (Dir es) q = Some (File s))"
    proof
      assume "\<exists>q r s. c # cs = q @ r \<and> lookup (Dir es) q = Some (File s)"
      then obtain q r s where "c # cs = q @ r" and l: "lookup (Dir es) q = Some (File s)"
        by blast
      with None show False by (cases q) simp_all
    qed
    with None show ?thesis by simp
  next
    case (Some n)
    with "3.prems" have miss: "lookup n cs = None" by simp
    have "(\<exists>q r s. c # cs = q @ r \<and> lookup (Dir es) q = Some (File s))
            \<longleftrightarrow> (\<exists>q r s. cs = q @ r \<and> lookup n q = Some (File s))"
    proof
      assume "\<exists>q r s. c # cs = q @ r \<and> lookup (Dir es) q = Some (File s)"
      then obtain q r s where e: "c # cs = q @ r" and l: "lookup (Dir es) q = Some (File s)"
        by blast
      from l obtain q' where q: "q = c # q'" using e by (cases q) auto
      with e l Some have "cs = q' @ r \<and> lookup n q' = Some (File s)" by simp
      then show "\<exists>q r s. cs = q @ r \<and> lookup n q = Some (File s)" by blast
    next
      assume "\<exists>q r s. cs = q @ r \<and> lookup n q = Some (File s)"
      then obtain q r s where "cs = q @ r" and "lookup n q = Some (File s)" by blast
      with Some have "c # cs = (c # q) @ r \<and> lookup (Dir es) (c # q) = Some (File s)" by simp
      then show "\<exists>q r s. c # cs = q @ r \<and> lookup (Dir es) q = Some (File s)" by blast
    qed
    with "3.IH" [OF Some miss] Some show ?thesis by simp
  qed
qed

lemma listdir_missing:
  assumes "lookup fs p = None"
  shows "listdir fs p = Inl (if \<exists>q r s. p = q @ r \<and> lookup fs q = Some (File s)
                             then NotADirectoryError else FileNotFoundError)"
  using resolve_missing [OF assms] by (simp add: listdir_def)

lemma listdir_missing_entry:
  assumes "lookup fs p = Some (Dir es)" and "map_of es name = None"
  shows "listdir fs (p @ [name]) = Inl FileNotFoundError"
proof -
  from assms(1) have "resolve fs p = Inr (Dir es)"
    by (simp add: resolve_lookup split: sum.splits)
  with assms(2) show ?thesis by (simp add: listdir_def resolve_append)
qed


























section \<open>Properties\<close>

subsection \<open>Attribute extractor\<close>

text \<open>
  C8. The extractor returns text \<open>t\<close> exactly when the parsed fragment has a first tag
  of the requested name (no tag of that name before it in document order) and \<open>t\<close> is
  the text of that tag; it raises exactly when no tag of that name occurs, and the error
  is the \<open>ValueError\<close> that names the attribute. The extractor is a function of the
  fragment and the name: it has no state to change.
\<close>

theorem extract_attribute_first_or_not_found:
  "(extract_attribute L txt a = Inr t \<longleftrightarrow>
      (\<exists>pre e post. soup_descendants (BeautifulSoup L txt) = pre @ e # post \<and> is_tag a e
          \<and> (\<forall>x \<in> set pre. \<not> is_tag a x) \<and> t = get_text e))
   \<and> (extract_attribute L txt a = Inl err \<longleftrightarrow>
        (\<forall>x \<in> set (soup_descendants (BeautifulSoup L txt)). \<not> is_tag a x)
         \<and> err = ValueError (''Could not find attribute '' @ a @ '' in text''))"
proof -
  let ?soup = "BeautifulSoup L txt"
  have r: "extract_attribute L txt a = Inr t \<longleftrightarrow> (\<exists>e. soup_find a ?soup = Some e \<and> t = get_text e)"
    by (cases "soup_find a ?soup") (auto simp: extract_attribute_def)
  have l: "extract_attribute L txt a = Inl err \<longleftrightarrow>
             soup_find a ?soup = None \<and> err = ValueError (''Could not find attribute '' @ a @ '' in text'')"
    by (cases "soup_find a ?soup") (auto simp: extract_attribute_def)
  show ?thesis
    unfolding r l soup_find_None_iff soup_find_Some_iff by blast
qed

theorem extract_attribute_first_or_not_found_witness:
  "extract_attribute (ref_lib []) demo_fragment ''id'' = Inr ''7''
   \<and> extract_attribute (ref_lib []) demo_fragment ''title''
       = Inl (ValueError ''Could not find attribute title in text'')"
proof
  have "\<exists>pre e post. soup_descendants (BeautifulSoup (ref_lib []) demo_fragment) = pre @ e # post
          \<and> is_tag ''id'' e \<and> (\<forall>x \<in> set pre. \<not> is_tag ''id'' x) \<and> ''7'' = get_text e"
    by (intro exI conjI, rule demo_fragment_descendants) (simp_all add: is_tag_def)
  then show "extract_attribute (ref_lib []) demo_fragment ''id'' = Inr ''7''"
    using extract_attribute_first_or_not_found [of "ref_lib []" demo_fragment "''id''" "''7''"]
    by blast
next
  have "\<forall>x \<in> set (soup_descendants (BeautifulSoup (ref_lib []) demo_fragment)). \<not> is_tag ''title'' x"
    unfolding demo_fragment_descendants by (simp add: is_tag_def)
  then show "extract_attribute (ref_lib []) demo_fragment ''title''
       = Inl (ValueError ''Could not find attribute title in text'')"
    using extract_attribute_first_or_not_found [of "ref_lib []" demo_fragment "''title''" _
        "ValueError ''Could not find attribute title in text''"]
    by simp
qed

subsection \<open>Page validation\<close>

text \<open>
  C5. Validation succeeds exactly when the parsed document has a \<open>page\<close> tag; otherwise
  it raises the error whose message is \<^verbatim>\<open>Page <name> does not exist\<close>. It returns
  nothing else and changes nothing.
\<close>

theorem validate_page_iff:
  "validate_page L page_name page_xml =
     (if \<exists>e \<in> set (soup_descendants (BeautifulSoup L page_xml)). is_tag ''page'' e
      then Inr ()
      else Inl (ValueError (''Page '' @ page_name @ '' does not exist'')))"
proof (cases "soup_find ''page'' (BeautifulSoup L page_xml)")
  case None
  then show ?thesis
    using soup_find_None_iff [of "''page''" "BeautifulSoup L page_xml"]
    by (simp add: validate_page_def extract_attribute_def)
next
  case (Some e)
  then show ?thesis
    using soup_find_None_iff [of "''page''" "BeautifulSoup L page_xml"]
    by (simp add: validate_page_def extract_attribute_def)
qed

theorem validate_page_iff_witness:
  "validate_page (ref_lib []) ''Page'' demo_document = Inr ()
   \<and> validate_page (ref_lib []) ''Nowhere'' ''<mediawiki><siteinfo/></mediawiki>''
       = Inl (ValueError ''Page Nowhere does not exist'')"
proof
  have "\<exists>e \<in> set (soup_descendants (BeautifulSoup (ref_lib []) demo_document)). is_tag ''page'' e"
    unfolding demo_document_soup by (simp add: soup_descendants_def is_tag_def)
  then show "validate_page (ref_lib []) ''Page'' demo_document = Inr ()"
    using validate_page_iff [of "ref_lib []" "''Page''" demo_document] by simp
next
  have "soup_descendants (BeautifulSoup (ref_lib []) ''<mediawiki><siteinfo/></mediawiki>'')
          = [Tag ''mediawiki'' [Tag ''siteinfo'' []], Tag ''siteinfo'' []]"
    by code_simp
  then have "\<not> (\<exists>e \<in> set (soup_descendants
                 (BeautifulSoup (ref_lib []) ''<mediawiki><siteinfo/></mediawiki>'')). is_tag ''page'' e)"
    by (simp add: is_tag_def)
  then show "validate_page (ref_lib []) ''Nowhere'' ''<mediawiki><siteinfo/></mediawiki>''
       = Inl (ValueError ''Page Nowhere does not exist'')"
    using validate_page_iff [of "ref_lib []" "''Nowhere''" "''<mediawiki><siteinfo/></mediawiki>''"]
    by simp
qed

subsection \<open>Path builder\<close>

text \<open>
  C2, as the code has it. For a fragment whose id \<open>I\<close> and timestamp \<open>T\<close> can be
  extracted, the path is the root joined with the page title, then the year in decimal,
  then the month as exactly two digits (zero-padded), then joined with \<open>I.xml\<close>. The
  joins are those of the path library, so a title or an id with a separator gives several
  parts, and one that starts with a separator replaces what stands before it. When the
  title and \<open>I.xml\<close> are plain names, the path is root, title, year, month, \<open>I.xml\<close>.
  The builder is a function, so equal arguments give equal paths.
\<close>

theorem construct_path_two_digit_month:
  assumes "extract_id L revision = Inr I" and "find_timestamp L revision = Inr T"
    and "1 \<le> month T" and "month T \<le> 12"
  shows "construct_path L page root revision =
           Inr (joinpath
                  (joinpath root page
                     @ [str_int (year T),
                        [digit_char (nat (month T) div 10), digit_char (nat (month T) mod 10)]])
                  (I @ ''.xml''))
       \<and> (plain_name page \<and> plain_name (I @ ''.xml'') \<longrightarrow>
            construct_path L page root revision =
              Inr (root @ [page, str_int (year T),
                           [digit_char (nat (month T) div 10), digit_char (nat (month T) mod 10)],
                           I @ ''.xml'']))"
proof -
  let ?mm = "[digit_char (nat (month T) div 10), digit_char (nat (month T) mod 10)]"
  have mm: "zfill (str_int (month T)) 2 = ?mm"
    using assms(3,4) by (rule zfill_month)
  have "construct_path L page root revision
          = Inr (joinpath (joinpath (joinpath (joinpath root page) (str_int (year T))) ?mm)
                   (I @ ''.xml''))"
    using assms(1,2) by (simp add: construct_path_def mm)
  then have general: "construct_path L page root revision
          = Inr (joinpath (joinpath root page @ [str_int (year T), ?mm]) (I @ ''.xml''))"
    by (simp add: joinpath_plain_name plain_name_str_int plain_name_two_digits)
  then show ?thesis
    by (simp add: joinpath_plain_name)
qed

theorem construct_path_two_digit_month_witness:
  "construct_path (ref_lib []) ''Page'' [''data''] demo_fragment
     = Inr [''data'', ''Page'', ''2020'', ''03'', ''7.xml'']
   \<and> construct_path (ref_lib []) ''AC/DC'' [''data''] demo_fragment
     = Inr [''data'', ''AC'', ''DC'', ''2020'', ''03'', ''7.xml'']
   \<and> construct_path (ref_lib []) ''/dev/null'' [''data''] demo_fragment
     = Inr [''/'', ''dev'', ''null'', ''2020'', ''03'', ''7.xml'']"
proof -
  have m: "1 \<le> month \<lparr>year = 2020, month = 3, day = 5, hour = 12, minute = 34, second = 56\<rparr>"
          "month \<lparr>year = 2020, month = 3, day = 5, hour = 12, minute = 34, second = 56\<rparr> \<le> 12"
    by simp_all
  note built = construct_path_two_digit_month [OF demo_fragment_id demo_fragment_timestamp m]
  have plain: "plain_name ''Page'' \<and> plain_name (''7'' @ ''.xml'')"
    by (simp add: plain_name_def)
  have digits: "str_int 2020 = ''2020''" "digit_char 0 = CHR ''0''" "digit_char 3 = CHR ''3''"
    by code_simp+
  have j2: "joinpath (joinpath [''data''] ''AC/DC'' @ [''2020'', ''03'']) ''7.xml''
              = [''data'', ''AC'', ''DC'', ''2020'', ''03'', ''7.xml'']"
    by code_simp
  have j3: "joinpath (joinpath [''data''] ''/dev/null'' @ [''2020'', ''03'']) ''7.xml''
              = [''/'', ''dev'', ''null'', ''2020'', ''03'', ''7.xml'']"
    by code_simp
  from built [of "''Page''" "[''data'']", THEN conjunct2, THEN mp, OF plain]
  have "construct_path (ref_lib []) ''Page'' [''data''] demo_fragment
     = Inr [''data'', ''Page'', ''2020'', ''03'', ''7.xml'']"
    by (simp add: digits)
  moreover from built [of "''AC/DC''" "[''data'']", THEN conjunct1]
  have "construct_path (ref_lib []) ''AC/DC'' [''data''] demo_fragment
     = Inr [''data'', ''AC'', ''DC'', ''2020'', ''03'', ''7.xml'']"
    by (simp add: digits j2)
  moreover from built [of "''/dev/null''" "[''data'']", THEN conjunct1]
  have "construct_path (ref_lib []) ''/dev/null'' [''data''] demo_fragment
     = Inr [''/'', ''dev'', ''null'', ''2020'', ''03'', ''7.xml'']"
    by (simp add: digits j3)
  ultimately show ?thesis by simp
qed

text \<open>
  The month is not written with four digits: for a timestamp in March 2020 the month
  component is \<open>03\<close>, not \<open>0003\<close>.
\<close>

theorem construct_path_four_digit_month_counterexample:
  "extract_id (ref_lib []) demo_fragment = Inr ''7''
   \<and> find_timestamp (ref_lib []) demo_fragment
       = Inr \<lparr>year = 2020, month = 3, day = 5, hour = 12, minute = 34, second = 56\<rparr>
   \<and> construct_path (ref_lib []) ''Page'' [''data''] demo_fragment
       \<noteq> Inr [''data'', ''Page'', ''2020'', ''0003'', ''7.xml'']"
proof -
  have "construct_path (ref_lib []) ''Page'' [''data''] demo_fragment
     = Inr [''data'', ''Page'', ''2020'', ''03'', ''7.xml'']"
    by code_simp
  then show ?thesis
    by (simp add: demo_fragment_id demo_fragment_timestamp)
qed

text \<open>
  C7. The builder raises the extractor's error for \<open>id\<close> when the fragment has no
  \<open>id\<close> tag, the extractor's error for \<open>timestamp\<close> when it has an \<open>id\<close> but no
  \<open>timestamp\<close> tag, and the error of the date parser when both are there and the
  text of the timestamp is not accepted under the format \<^verbatim>\<open>%Y-%m-%dT%H:%M:%SZ\<close>.
  It returns a path exactly when both tags are there and the text is accepted.
\<close>

theorem construct_path_errors:
  "(soup_find ''id'' (BeautifulSoup L frag) = None \<longrightarrow>
      extract_attribute L frag ''id'' = Inl (ValueError ''Could not find attribute id in text'')
      \<and> construct_path L page root frag = Inl (ValueError ''Could not find attribute id in text''))
   \<and> (soup_find ''id'' (BeautifulSoup L frag) \<noteq> None
        \<and> soup_find ''timestamp'' (BeautifulSoup L frag) = None \<longrightarrow>
      extract_attribute L frag ''timestamp''
        = Inl (ValueError ''Could not find attribute timestamp in text'')
      \<and> construct_path L page root frag
        = Inl (ValueError ''Could not find attribute timestamp in text''))
   \<and> (soup_find ''id'' (BeautifulSoup L frag) \<noteq> None
        \<and> soup_find ''timestamp'' (BeautifulSoup L frag) = Some t
        \<and> strptime L (get_text t) ''%Y-%m-%dT%H:%M:%SZ'' = Inl e \<longrightarrow>
      construct_path L page root frag = Inl e)
   \<and> ((\<exists>p. construct_path L page root frag = Inr p) \<longleftrightarrow>
        soup_find ''id'' (BeautifulSoup L frag) \<noteq> None
        \<and> (\<exists>t T. soup_find ''timestamp'' (BeautifulSoup L frag) = Some t
                 \<and> strptime L (get_text t) ''%Y-%m-%dT%H:%M:%SZ'' = Inr T))"
proof (cases "soup_find ''id'' (BeautifulSoup L frag)")
  case None
  then show ?thesis
    by (simp add: construct_path_def extract_id_def extract_attribute_def)
next
  case id: (Some i)
  show ?thesis
  proof (cases "soup_find ''timestamp'' (BeautifulSoup L frag)")
    case None
    with id show ?thesis
      by (simp add: construct_path_def extract_id_def find_timestamp_def extract_attribute_def)
  next
    case ts: (Some t')
    show ?thesis
    proof (cases "strptime L (get_text t') ''%Y-%m-%dT%H:%M:%SZ''")
      case (Inl e')
      with id ts show ?thesis
        by (simp add: construct_path_def extract_id_def find_timestamp_def
            extract_attribute_def parse_timestring_def)
    next
      case (Inr T')
      with id ts show ?thesis
        by (simp add: construct_path_def extract_id_def find_timestamp_def
            extract_attribute_def parse_timestring_def)
    qed
  qed
qed

theorem construct_path_errors_witness:
  "construct_path (ref_lib []) ''Page'' [''data''] ''<revision><timestamp>2020-03-05T12:34:56Z</timestamp></revision>''
     = Inl (ValueError ''Could not find attribute id in text'')
   \<and> construct_path (ref_lib []) ''Page'' [''data''] ''<revision><id>7</id></revision>''
     = Inl (ValueError ''Could not find attribute timestamp in text'')
   \<and> construct_path (ref_lib []) ''Page'' [''data''] ''<revision><id>7</id><timestamp>5 March 2020</timestamp></revision>''
     = Inl (ValueError ''time data does not match format: 5 March 2020'')
   \<and> (\<exists>p. construct_path (ref_lib []) ''Page'' [''data''] demo_fragment = Inr p)"
proof (intro conjI)
  have "soup_find ''id'' (BeautifulSoup (ref_lib [])
          ''<revision><timestamp>2020-03-05T12:34:56Z</timestamp></revision>'') = None"
    by code_simp
  then show "construct_path (ref_lib []) ''Page'' [''data''] ''<revision><timestamp>2020-03-05T12:34:56Z</timestamp></revision>''
     = Inl (ValueError ''Could not find attribute id in text'')"
    using construct_path_errors [where L = "ref_lib []" and page = "''Page''" and root = "[''data'']"
        and frag = "''<revision><timestamp>2020-03-05T12:34:56Z</timestamp></revision>''"]
    by blast
next
  have "soup_find ''id'' (BeautifulSoup (ref_lib []) ''<revision><id>7</id></revision>'') \<noteq> None"
       "soup_find ''timestamp'' (BeautifulSoup (ref_lib []) ''<revision><id>7</id></revision>'') = None"
    by code_simp+
  then show "construct_path (ref_lib []) ''Page'' [''data''] ''<revision><id>7</id></revision>''
     = Inl (ValueError ''Could not find attribute timestamp in text'')"
    using construct_path_errors [where L = "ref_lib []" and page = "''Page''" and root = "[''data'']"
        and frag = "''<revision><id>7</id></revision>''"]
    by blast
next
  let ?f = "''<revision><id>7</id><timestamp>5 March 2020</timestamp></revision>''"
  have "soup_find ''id'' (BeautifulSoup (ref_lib []) ?f) \<noteq> None"
       "soup_find ''timestamp'' (BeautifulSoup (ref_lib []) ?f)
          = Some (Tag ''timestamp'' [NavigableString ''5 March 2020''])"
       "strptime (ref_lib []) (get_text (Tag ''timestamp'' [NavigableString ''5 March 2020'']))
          ''%Y-%m-%dT%H:%M:%SZ'' = Inl (ValueError ''time data does not match format: 5 March 2020'')"
    by code_simp+
  then show "construct_path (ref_lib []) ''Page'' [''data''] ?f
     = Inl (ValueError ''time data does not match format: 5 March 2020'')"
    using construct_path_errors [where L = "ref_lib []" and page = "''Page''" and root = "[''data'']"
        and frag = ?f and t = "Tag ''timestamp'' [NavigableString ''5 March 2020'']"
        and e = "ValueError ''time data does not match format: 5 March 2020''"]
    by blast
next
  have "soup_find ''id'' (BeautifulSoup (ref_lib []) demo_fragment) \<noteq> None"
       "soup_find ''timestamp'' (BeautifulSoup (ref_lib []) demo_fragment)
          = Some (Tag ''timestamp'' [NavigableString ''2020-03-05T12:34:56Z''])"
       "strptime (ref_lib []) (get_text (Tag ''timestamp'' [NavigableString ''2020-03-05T12:34:56Z'']))
          ''%Y-%m-%dT%H:%M:%SZ''
          = Inr \<lparr>year = 2020, month = 3, day = 5, hour = 12, minute = 34, second = 56\<rparr>"
    by code_simp+
  then show "\<exists>p. construct_path (ref_lib []) ''Page'' [''data''] demo_fragment = Inr p"
    using construct_path_errors [where L = "ref_lib []" and page = "''Page''" and root = "[''data'']"
        and frag = demo_fragment]
    by blast
qed

subsection \<open>Error kinds\<close>

text \<open>
  C10. Given that the date parser raises nothing but \<open>ValueError\<close> on a string (its
  documented behaviour), every error of page validation, of the extractor, of timestamp
  parsing and of the path builder is a \<open>ValueError\<close>: the kinds differ in the message
  only.
\<close>

theorem core_errors_are_ValueError:
  assumes "\<forall>s e. strptime L s ''%Y-%m-%dT%H:%M:%SZ'' = Inl e \<longrightarrow> is_ValueError e"
  shows "(validate_page L page_name page_xml = Inl e1 \<longrightarrow> is_ValueError e1)
       \<and> (extract_attribute L txt a = Inl e2 \<longrightarrow> is_ValueError e2)
       \<and> (parse_timestring L s = Inl e3 \<longrightarrow> is_ValueError e3)
       \<and> (construct_path L page root frag = Inl e4 \<longrightarrow> is_ValueError e4)"
proof -
  have ex: "is_ValueError x" if "extract_attribute L u b = Inl x" for u b x
    using that by (auto simp: extract_attribute_def is_ValueError_def split: option.splits)
  have pt: "is_ValueError x" if "parse_timestring L u = Inl x" for u x
    using that assms by (simp add: parse_timestring_def)
  have vp: "is_ValueError x" if "validate_page L page_name page_xml = Inl x" for x
    using that ex [of page_xml "''page''"]
    by (auto simp: validate_page_def is_ValueError_def split: sum.splits exn.splits)
  have ft: "is_ValueError x" if "find_timestamp L u = Inl x" for u x
    using that ex [of u "''timestamp''"] pt
    by (auto simp: find_timestamp_def split: sum.splits)
  have cp: "is_ValueError x" if "construct_path L page root frag = Inl x" for x
    using that ex [of frag "''id''"] ft [of frag]
    by (auto simp: construct_path_def extract_id_def Let_def split: sum.splits)
  from ex pt vp cp show ?thesis by blast
qed

theorem core_errors_are_ValueError_witness:
  "validate_page (ref_lib []) ''Nowhere'' ''<mediawiki><siteinfo/></mediawiki>''
       = Inl (ValueError ''Page Nowhere does not exist'')
   \<and> is_ValueError (ValueError ''Page Nowhere does not exist'')
   \<and> parse_timestring (ref_lib []) ''5 March 2020''
       = Inl (ValueError ''time data does not match format: 5 March 2020'')
   \<and> is_ValueError (ValueError ''time data does not match format: 5 March 2020'')"
proof -
  have v: "validate_page (ref_lib []) ''Nowhere'' ''<mediawiki><siteinfo/></mediawiki>''
       = Inl (ValueError ''Page Nowhere does not exist'')"
    by code_simp
  have p: "parse_timestring (ref_lib []) ''5 March 2020''
       = Inl (ValueError ''time data does not match format: 5 March 2020'')"
    by code_simp
  from v p show ?thesis
    using core_errors_are_ValueError [where L = "ref_lib []" and page_name = "''Nowhere''"
        and page_xml = "''<mediawiki><siteinfo/></mediawiki>''"
        and ?e1.0 = "ValueError ''Page Nowhere does not exist''"
        and s = "''5 March 2020''"
        and ?e3.0 = "ValueError ''time data does not match format: 5 March 2020''",
        OF ref_lib_strptime_contract]
    by blast
qed

subsection \<open>Fetching\<close>

text \<open>
  C9. The download is what the endpoint answers to one request, passed through the status
  check: the request to the export address whose form has \<open>limit\<close> set to the smaller
  of the requested limit and 1000. Whatever an endpoint makes of the request it receives,
  it makes it of a form with \<open>limit\<close> 1000 when more than 1000 are requested, and with
  the requested limit otherwise.
\<close>

theorem download_limit_capped:
  "download_page_w_revisions L page limit =
     (case requests_post L ''https://en.wikipedia.org/w/index.php''
             [(''title'', StrV ''Special:Export''), (''pages'', StrV page),
              (''limit'', IntV (min limit 1000)), (''dir'', StrV ''desc''),
              (''action'', StrV ''submit'')] of
        Inl e \<Rightarrow> Inl e
      | Inr r \<Rightarrow> if 400 \<le> status_code r \<and> status_code r < 600
                 then Inl (HTTPError (status_code r)) else Inr (response_text r))
   \<and> (1000 < limit \<longrightarrow>
        download_page_w_revisions
          (L\<lparr>requests_post := \<lambda>url form. Inr \<lparr>status_code = 200, response_text = observe url form\<rparr>\<rparr>)
          page limit
        = Inr (observe ''https://en.wikipedia.org/w/index.php''
                 [(''title'', StrV ''Special:Export''), (''pages'', StrV page),
                  (''limit'', IntV 1000), (''dir'', StrV ''desc''), (''action'', StrV ''submit'')]))
   \<and> (limit \<le> 1000 \<longrightarrow>
        download_page_w_revisions
          (L\<lparr>requests_post := \<lambda>url form. Inr \<lparr>status_code = 200, response_text = observe url form\<rparr>\<rparr>)
          page limit
        = Inr (observe ''https://en.wikipedia.org/w/index.php''
                 [(''title'', StrV ''Special:Export''), (''pages'', StrV page),
                  (''limit'', IntV limit), (''dir'', StrV ''desc''), (''action'', StrV ''submit'')]))"
  by (simp add: download_page_w_revisions_def)

theorem download_limit_capped_witness:
  "download_page_w_revisions
     ((ref_lib [])\<lparr>requests_post := \<lambda>url form. Inr \<lparr>status_code = 200, response_text = echo_limit url form\<rparr>\<rparr>)
     ''Page'' 5000 = Inr ''1000''
   \<and> download_page_w_revisions
     ((ref_lib [])\<lparr>requests_post := \<lambda>url form. Inr \<lparr>status_code = 200, response_text = echo_limit url form\<rparr>\<rparr>)
     ''Page'' 10 = Inr ''10''
   \<and> download_page_w_revisions
     ((ref_lib [])\<lparr>requests_post := \<lambda>url form. Inr \<lparr>status_code = 404, response_text = []\<rparr>\<rparr>)
     ''Page'' 10 = Inl (HTTPError 404)"
proof -
  have "(1000::int) < 5000" "(10::int) \<le> 1000" by simp_all
  moreover have "echo_limit ''https://en.wikipedia.org/w/index.php''
                 [(''title'', StrV ''Special:Export''), (''pages'', StrV ''Page''),
                  (''limit'', IntV 1000), (''dir'', StrV ''desc''), (''action'', StrV ''submit'')]
               = ''1000''"
    by code_simp
  moreover have "echo_limit ''https://en.wikipedia.org/w/index.php''
                 [(''title'', StrV ''Special:Export''), (''pages'', StrV ''Page''),
                  (''limit'', IntV 10), (''dir'', StrV ''desc''), (''action'', StrV ''submit'')]
               = ''10''"
    by code_simp
  ultimately show ?thesis
    using download_limit_capped [where L = "ref_lib []" and page = "''Page''" and limit = 5000
            and observe = echo_limit]
          download_limit_capped [where L = "ref_lib []" and page = "''Page''" and limit = 10
            and observe = echo_limit]
          download_limit_capped [where page = "''Page''" and limit = 10
            and L = "(ref_lib [])\<lparr>requests_post := \<lambda>url form. Inr \<lparr>status_code = 404, response_text = []\<rparr>\<rparr>"]
    by simp
qed

subsection \<open>Revision parser\<close>



subsection \<open>Revision counter\<close>

text \<open>
  C3. For a path that names a directory in which no directory lists a name twice, the
  counter returns the number of files below it, plus the number of directories below it
  (the directory itself left out) exactly when the flag is the string \<^verbatim>\<open>"True"\<close>.
  The instances after the theorem are an empty directory (0), and a directory with three
  files and two subdirectories of one file each (5, and 7 with the flag \<^verbatim>\<open>"True"\<close>).
\<close>

theorem count_revisions_counts:
  assumes "lookup fs p = Some (Dir es)" and "wf_node (Dir es)"
  shows "count_revisions fs p folders
           = Inr (num_files (Dir es) + (if folders = PyStr ''True'' then num_dirs (Dir es) else 0))"
  using count_revisions_total [OF assms, of folders] by (simp add: is_file_def total_def)

theorem count_revisions_counts_witness:
  "count_revisions demo_tree [''data'', ''Empty''] (PyStr ''True'') = Inr 0
   \<and> count_revisions demo_tree [''data'', ''Empty''] PyNone = Inr 0
   \<and> count_revisions demo_tree [''data'', ''Page''] PyNone = Inr 5
   \<and> count_revisions demo_tree [''data'', ''Page''] (PyStr ''False'') = Inr 5
   \<and> count_revisions demo_tree [''data'', ''Page''] (PyBool True) = Inr 5
   \<and> count_revisions demo_tree [''data'', ''Page''] (PyStr ''True'') = Inr 7"
proof -
  have wf: "wf_node (Dir [(''1.xml'', File ''a''), (''2.xml'', File ''b''), (''3.xml'', File ''c''),
                  (''2020'', Dir [(''4.xml'', File ''d'')]),
                  (''2021'', Dir [(''5.xml'', File ''e'')])])"
    by simp
  have wf0: "wf_node (Dir [])" by simp
  show ?thesis
    using count_revisions_counts [OF demo_tree_empty wf0]
      count_revisions_counts [OF demo_tree_page wf]
    by (simp add: num_files_def num_dirs_def is_file_def)
qed

subsection \<open>Persisting a revision\<close>

text \<open>
  C1, as the code has it. When a fragment has been persisted, persisting it again raises
  no error and leaves the file system as it was, with the file holding the fragment's
  text. The write is performed every time, though: when a file already exists at the
  target path, with whatever text, persisting succeeds and the file then holds the
  fragment's text. Only the creation of the directory depends on the path's existence.
\<close>

theorem save_revision_rewrites:
  "(save_revision L page data_dir frag fs = Inr fs1 \<longrightarrow>
      save_revision L page data_dir frag fs1 = Inr fs1
      \<and> save_revisions L page data_dir [frag, frag] fs = Inr fs1
      \<and> (\<exists>q. construct_path L page data_dir frag = Inr q \<and> lookup fs1 q = Some (File frag)))
   \<and> (construct_path L page data_dir frag = Inr p \<and> lookup fs p = Some (File old) \<longrightarrow>
      (\<exists>fs2. save_revision L page data_dir frag fs = Inr fs2
             \<and> lookup fs2 p = Some (File frag)))"
proof (intro conjI impI)
  assume first: "save_revision L page data_dir frag fs = Inr fs1"
  then obtain q where q: "construct_path L page data_dir frag = Inr q"
    by (cases "construct_path L page data_dir frag") (simp_all add: save_revision_def)
  from first q obtain fs0 where "write_text fs0 q frag = Inr fs1"
    by (auto simp: save_revision_def split: sum.splits if_splits)
  then have stored: "lookup fs1 q = Some (File frag)" by (rule write_text_lookup)
  then have "write_text fs1 q frag = Inr fs1" by (rule write_text_same)
  with stored q show again: "save_revision L page data_dir frag fs1 = Inr fs1"
    by (simp add: save_revision_def path_exists_def)
  with first show "save_revisions L page data_dir [frag, frag] fs = Inr fs1" by simp
  from q stored
  show "\<exists>q. construct_path L page data_dir frag = Inr q \<and> lookup fs1 q = Some (File frag)"
    by blast
next
  assume "construct_path L page data_dir frag = Inr p \<and> lookup fs p = Some (File old)"
  then have p: "construct_path L page data_dir frag = Inr p" and l: "lookup fs p = Some (File old)"
    by simp_all
  from l obtain fs2 where w: "write_text fs p frag = Inr fs2"
    using write_text_overwrite by blast
  then have "lookup fs2 p = Some (File frag)" by (rule write_text_lookup)
  with p l w show "\<exists>fs2. save_revision L page data_dir frag fs = Inr fs2
             \<and> lookup fs2 p = Some (File frag)"
    by (simp add: save_revision_def path_exists_def)
qed

theorem save_revision_rewrites_witness:
  "save_revision (ref_lib []) ''Page'' [''data''] demo_fragment (demo_store demo_fragment)
     = Inr (demo_store demo_fragment)
   \<and> save_revisions (ref_lib []) ''Page'' [''data''] [demo_fragment, demo_fragment] (Dir [])
     = Inr (demo_store demo_fragment)
   \<and> (\<exists>fs2. save_revision (ref_lib []) ''Page'' [''data''] demo_fragment (demo_store ''old'') = Inr fs2
            \<and> lookup fs2 demo_path = Some (File demo_fragment))"
  using save_revision_rewrites [where L = "ref_lib []" and page = "''Page''"
      and data_dir = "[''data'']" and frag = demo_fragment and fs = "Dir []"
      and ?fs1.0 = "demo_store demo_fragment"]
    save_revision_rewrites [where L = "ref_lib []" and page = "''Page''"
      and data_dir = "[''data'']" and frag = demo_fragment and fs = "demo_store ''old''"
      and p = demo_path and old = "''old''"]
    demo_fragment_first_save demo_fragment_path demo_store_lookup [of "''old''"]
  by blast

text \<open>
  An existing file is overwritten: two fragments of the same page with the same id and
  timestamp go to the same path, and after the second is persisted the file holds the
  second one's text.
\<close>

theorem save_revision_overwrites_counterexample:
  "construct_path (ref_lib []) ''Page'' [''data''] demo_fragment = Inr demo_path
   \<and> construct_path (ref_lib []) ''Page'' [''data''] demo_fragment_edited = Inr demo_path
   \<and> save_revision (ref_lib []) ''Page'' [''data''] demo_fragment (Dir [])
       = Inr (demo_store demo_fragment)
   \<and> lookup (demo_store demo_fragment) demo_path = Some (File demo_fragment)
   \<and> save_revision (ref_lib []) ''Page'' [''data''] demo_fragment_edited (demo_store demo_fragment)
       = Inr (demo_store demo_fragment_edited)
   \<and> lookup (demo_store demo_fragment_edited) demo_path \<noteq> Some (File demo_fragment)"
proof -
  have "construct_path (ref_lib []) ''Page'' [''data''] demo_fragment_edited = Inr demo_path"
    by code_simp
  moreover have "save_revision (ref_lib []) ''Page'' [''data''] demo_fragment_edited
      (demo_store demo_fragment) = Inr (demo_store demo_fragment_edited)"
    by code_simp
  moreover have "demo_fragment_edited \<noteq> demo_fragment"
    by code_simp
  ultimately show ?thesis
    by (simp add: demo_fragment_path demo_fragment_first_save demo_store_lookup)
qed


subsection \<open>A page without revisions\<close>

text \<open>
  C6. Let the download succeed and the document have a \<open>page\<close> tag and no
  \<open>revision\<close> tag. When the page title is a plain name, the data root is a directory
  and the page's directory does not exist, \<^verbatim>\<open>main\<close> ends with the counter's
  \<open>FileNotFoundError\<close>: nothing has created the directory. More generally, for a path
  of plain names that does not exist, \<^verbatim>\<open>main\<close> reports no count: it ends with
  \<open>FileNotFoundError\<close>, or with \<open>NotADirectoryError\<close> when a file stands on the path.
\<close>

theorem main_no_revisions_not_found:
  assumes "download_page_w_revisions L page limit = Inr raw"
    and "soup_find ''page'' (BeautifulSoup L raw) \<noteq> None"
    and "soup_find_all ''revision'' (BeautifulSoup L raw) = []"
  shows "(plain_name page \<and> lookup fs data_dir = Some (Dir es)
            \<and> lookup fs (joinpath data_dir page) = None \<longrightarrow>
          main L page limit data_dir folders fs = Inl FileNotFoundError)
       \<and> (list_all plain_name (joinpath data_dir page)
            \<and> lookup fs (joinpath data_dir page) = None \<longrightarrow>
          main L page limit data_dir folders fs
            = Inl (if \<exists>q r s. joinpath data_dir page = q @ r \<and> lookup fs q = Some (File s)
                   then NotADirectoryError else FileNotFoundError))"
proof -
  from assms(2) have "validate_page L page raw = Inr ()"
    by (auto simp: validate_page_def extract_attribute_def)
  moreover from assms(3) have "parse_mediawiki_revisions L raw = []"
    by (simp add: parse_mediawiki_revisions_def)
  ultimately have m: "main L page limit data_dir folders fs
      = (case listdir fs (joinpath data_dir page) of
           Inl e \<Rightarrow> Inl e
         | Inr items \<Rightarrow>
             (case count_loop fs (joinpath data_dir page) folders items 0 of
                Inl e \<Rightarrow> Inl e | Inr n \<Rightarrow> Inr (fs, n)))"
    using assms(1) by (simp add: main_def count_revisions.simps split: sum.splits)
  have "main L page limit data_dir folders fs = Inl FileNotFoundError"
    if "plain_name page" and dir: "lookup fs data_dir = Some (Dir es)"
      and none: "lookup fs (joinpath data_dir page) = None"
  proof -
    from that(1) have j: "joinpath data_dir page = data_dir @ [page]"
      by (rule joinpath_plain_name)
    from none dir have "map_of es page = None"
      by (cases "map_of es page") (simp_all add: j lookup_append)
    with dir have "listdir fs (data_dir @ [page]) = Inl FileNotFoundError"
      by (rule listdir_missing_entry)
    then show ?thesis by (simp add: m j)
  qed
  moreover have "main L page limit data_dir folders fs
            = Inl (if \<exists>q r s. joinpath data_dir page = q @ r \<and> lookup fs q = Some (File s)
                   then NotADirectoryError else FileNotFoundError)"
    if "lookup fs (joinpath data_dir page) = None"
    using listdir_missing [OF that] by (simp add: m)
  ultimately show ?thesis by blast
qed


theorem main_no_revisions_not_found_witness:
  "main (ref_lib demo_empty_export) ''Page'' 10 [''data''] PyNone (Dir [(''data'', Dir [])])
     = Inl FileNotFoundError
   \<and> main (ref_lib demo_empty_export) ''Page'' 10 [''data''] PyNone (Dir [(''data'', File ''x'')])
     = Inl NotADirectoryError"
proof -
  have dl: "download_page_w_revisions (ref_lib demo_empty_export) ''Page'' 10 = Inr demo_empty_export"
    by (simp add: download_page_w_revisions_def ref_lib_def ref_post_def)
  have pg: "soup_find ''page'' (BeautifulSoup (ref_lib demo_empty_export) demo_empty_export) \<noteq> None"
    by code_simp
  have nr: "soup_find_all ''revision''
      (BeautifulSoup (ref_lib demo_empty_export) demo_empty_export) = []"
    by code_simp
  note run = main_no_revisions_not_found [OF dl pg nr]
  have j: "joinpath [''data''] ''Page'' = [''data'', ''Page'']"
    by code_simp
  have "plain_name ''Page'' \<and> lookup (Dir [(''data'', Dir [])]) [''data''] = Some (Dir [])
          \<and> lookup (Dir [(''data'', Dir [])]) (joinpath [''data''] ''Page'') = None"
    by (simp add: plain_name_def j)
  with run [where fs = "Dir [(''data'', Dir [])]" and data_dir = "[''data'']" and es = "[]"
      and folders = PyNone]
  have first: "main (ref_lib demo_empty_export) ''Page'' 10 [''data''] PyNone (Dir [(''data'', Dir [])])
     = Inl FileNotFoundError"
    by blast
  have "[''data'', ''Page''] = [''data''] @ [''Page'']
          \<and> lookup (Dir [(''data'', File ''x'')]) [''data''] = Some (File ''x'')"
    by simp
  then have below: "\<exists>q r s. joinpath [''data''] ''Page'' = q @ r
          \<and> lookup (Dir [(''data'', File ''x'')]) q = Some (File s)"
    unfolding j by blast
  have "list_all plain_name (joinpath [''data''] ''Page'')
          \<and> lookup (Dir [(''data'', File ''x'')]) (joinpath [''data''] ''Page'') = None"
    by (simp add: plain_name_def j)
  with run [where fs = "Dir [(''data'', File ''x'')]" and data_dir = "[''data'']"
      and folders = PyNone] below
  have "main (ref_lib demo_empty_export) ''Page'' 10 [''data''] PyNone (Dir [(''data'', File ''x'')])
     = Inl NotADirectoryError"
    by simp
  with first show ?thesis by simp
qed

end
